theory Spec2Isabelle
  imports Main
begin

section \<open>JavaScript values\<close>

text \<open>
  The values the library handles: the primitives a caller passes as field values and
  identifiers, the row objects (a \<open>ListItem\<close> maps a field's internal name to the
  attribute read for it) and arrays. Strings are lists of code units below 256.
  \<open>JNumber\<close> stands for an integer-valued number (identifiers and counts).
  An object keeps its properties in insertion order; setting a property that exists
  overwrites it in place.
\<close>

datatype jsval =
    JUndefined
  | JNull
  | JBool bool
  | JNumber int
  | JString string
  | JObject "(string \<times> jsval) list"
  | JArray "jsval list"

datatype js_error = TypeError

fun obj_set :: "(string \<times> jsval) list \<Rightarrow> string \<Rightarrow> jsval \<Rightarrow> (string \<times> jsval) list" where
  "obj_set [] k v = [(k, v)]"
| "obj_set ((k', v') # ps) k v = (if k' = k then (k, v) # ps else (k', v') # obj_set ps k v)"

text \<open>\<open>xs[i]\<close>: reading past the end of an array gives \<open>undefined\<close> (here \<open>None\<close>).\<close>

definition js_index :: "'a list \<Rightarrow> nat \<Rightarrow> 'a option" where
  "js_index xs i = (if i < length xs then Some (xs ! i) else None)"

text \<open>\<open>xs[i] = v\<close>: writing past the end extends the array, the gap reading as \<open>undefined\<close>.\<close>

definition array_set :: "jsval list \<Rightarrow> nat \<Rightarrow> jsval \<Rightarrow> jsval list" where
  "array_set xs i v =
     (if i < length xs then xs[i := v]
      else xs @ replicate (i - length xs) JUndefined @ [v])"

definition opt_val :: "string option \<Rightarrow> jsval" where
  "opt_val v = (case v of None \<Rightarrow> JUndefined | Some s \<Rightarrow> JString s)"

subsection \<open>String conversion\<close>

definition digit_char :: "nat \<Rightarrow> char" where
  "digit_char d = char_of (48 + d)"

fun show_nat :: "nat \<Rightarrow> string" where
  "show_nat n = (if n < 10 then [digit_char n] else show_nat (n div 10) @ [digit_char (n mod 10)])"

declare show_nat.simps [simp del]

definition show_int :: "int \<Rightarrow> string" where
  "show_int n = (if n < 0 then CHR ''-'' # show_nat (nat (- n)) else show_nat (nat n))"

fun join_comma :: "string list \<Rightarrow> string" where
  "join_comma [] = []"
| "join_comma [s] = s"
| "join_comma (s # t # ss) = s @ '','' @ join_comma (t # ss)"

text \<open>
  The string a value contributes to a concatenation (\<open>"..." + v\<close>): \<open>undefined\<close> reads
  \<open>"undefined"\<close>, a plain object \<open>"[object Object]"\<close>, an array its elements joined
  by commas with \<open>undefined\<close> and \<open>null\<close> elements empty.
\<close>

fun to_string :: "jsval \<Rightarrow> string" where
  "to_string JUndefined = ''undefined''"
| "to_string JNull = ''null''"
| "to_string (JBool b) = (if b then ''true'' else ''false'')"
| "to_string (JNumber n) = show_int n"
| "to_string (JString s) = s"
| "to_string (JObject ps) = ''[object Object]''"
| "to_string (JArray xs) =
     join_comma (map (\<lambda>x. if x = JUndefined \<or> x = JNull then [] else to_string x) xs)"

subsection \<open>Comparing an attribute with zero\<close>

text \<open>
  \<open>newId >= 0\<close> converts \<open>newId\<close> to a number: \<open>undefined\<close> becomes NaN and the
  comparison is false; a string is read as a numeric literal after its white space is
  stripped (the empty string is 0, a decimal literal may carry a sign, a fraction and an
  exponent, \<open>Infinity\<close> may carry a sign, hexadecimal, octal and binary literals carry
  none), anything else being NaN. Only the sign of the number matters here, so the
  conversion is modelled by that sign. A negative literal whose magnitude is at most
  \<open>2 ^ -1075\<close> rounds to \<open>-0\<close>, which is not below zero.
\<close>

datatype sign_class = NotANumber | Negative | NonNegative

definition is_ws :: "char \<Rightarrow> bool" where
  "is_ws c = (of_char c \<in> {9, 10, 11, 12, 13, 32, 160 :: nat})"

definition strip_ws :: "string \<Rightarrow> string" where
  "strip_ws s = rev (dropWhile is_ws (rev (dropWhile is_ws s)))"

definition is_digit :: "char \<Rightarrow> bool" where
  "is_digit c = (48 \<le> (of_char c :: nat) \<and> (of_char c :: nat) \<le> 57)"

definition is_hex_digit :: "char \<Rightarrow> bool" where
  "is_hex_digit c =
     (is_digit c \<or> (65 \<le> (of_char c :: nat) \<and> (of_char c :: nat) \<le> 70)
                \<or> (97 \<le> (of_char c :: nat) \<and> (of_char c :: nat) \<le> 102))"

definition is_octal_digit :: "char \<Rightarrow> bool" where
  "is_octal_digit c = (48 \<le> (of_char c :: nat) \<and> (of_char c :: nat) \<le> 55)"

definition is_binary_digit :: "char \<Rightarrow> bool" where
  "is_binary_digit c = (c = CHR ''0'' \<or> c = CHR ''1'')"

definition digits_val :: "string \<Rightarrow> nat" where
  "digits_val ds = foldl (\<lambda>a c. 10 * a + (of_char c - 48)) 0 ds"

text \<open>The exponent part of a decimal literal: absent, or \<open>e\<close> and a signed integer.\<close>

definition exponent_part :: "string \<Rightarrow> int option" where
  "exponent_part s =
     (case s of
        [] \<Rightarrow> Some 0
      | c # r \<Rightarrow>
          if c = CHR ''e'' \<or> c = CHR ''E'' then
            (case r of
               [] \<Rightarrow> None
             | d # ds \<Rightarrow>
                 if d = CHR ''-'' then
                   (if ds \<noteq> [] \<and> list_all is_digit ds then Some (- int (digits_val ds)) else None)
                 else if d = CHR ''+'' then
                   (if ds \<noteq> [] \<and> list_all is_digit ds then Some (int (digits_val ds)) else None)
                 else
                   (if list_all is_digit r then Some (int (digits_val r)) else None))
          else None)"

text \<open>
  An unsigned decimal literal as mantissa and decimal exponent, \<open>None\<close> when the text is
  not one. \<open>Infinity\<close> is handled by the caller.
\<close>

definition unsigned_decimal :: "string \<Rightarrow> (nat \<times> int) option" where
  "unsigned_decimal s =
     (let ip = takeWhile is_digit s;
          r1 = dropWhile is_digit s;
          dot = (r1 \<noteq> [] \<and> hd r1 = CHR ''.'');
          fp = (if dot then takeWhile is_digit (tl r1) else []);
          r2 = (if dot then dropWhile is_digit (tl r1) else r1)
      in if ip = [] \<and> fp = [] then None
         else (case exponent_part r2 of
                 None \<Rightarrow> None
               | Some e \<Rightarrow> Some (digits_val (ip @ fp), e - int (length fp))))"

text \<open>Whether \<open>m * 10 ^ e\<close> is above \<open>2 ^ -1075\<close>, so that its negation is below zero.\<close>

definition rounds_nonzero :: "nat \<Rightarrow> int \<Rightarrow> bool" where
  "rounds_nonzero m e =
     (if 0 \<le> e then 0 < m else (10 :: int) ^ nat (- e) < int m * 2 ^ 1075)"

definition prefixed_literal :: "string \<Rightarrow> bool" where
  "prefixed_literal s =
     (case s of
        z # x # ds \<Rightarrow>
          z = CHR ''0'' \<and> ds \<noteq> [] \<and>
          ((x = CHR ''x'' \<or> x = CHR ''X'') \<and> list_all is_hex_digit ds \<or>
           (x = CHR ''o'' \<or> x = CHR ''O'') \<and> list_all is_octal_digit ds \<or>
           (x = CHR ''b'' \<or> x = CHR ''B'') \<and> list_all is_binary_digit ds)
      | _ \<Rightarrow> False)"

definition number_sign :: "string \<Rightarrow> sign_class" where
  "number_sign str =
     (let s = strip_ws str in
      if s = [] then NonNegative
      else if prefixed_literal s then NonNegative
      else if hd s = CHR ''-'' then
        (if tl s = ''Infinity'' then Negative
         else (case unsigned_decimal (tl s) of
                 None \<Rightarrow> NotANumber
               | Some (m, e) \<Rightarrow> if rounds_nonzero m e then Negative else NonNegative))
      else
        (let u = (if hd s = CHR ''+'' then tl s else s) in
         if u = ''Infinity'' then NonNegative
         else (case unsigned_decimal u of None \<Rightarrow> NotANumber | Some _ \<Rightarrow> NonNegative)))"

definition js_ge_zero :: "string option \<Rightarrow> bool" where
  "js_ge_zero v = (case v of None \<Rightarrow> False | Some s \<Rightarrow> number_sign s = NonNegative)"

section \<open>The service's replies\<close>

text \<open>
  A reply is what the helper layer hands to \<open>completefunc\<close>: the response document and the
  transport status. The document is the list of its elements in document order (empty when
  the transport delivered none); an element has a node name, attributes and text.
\<close>

record xml_element =
  nodeName :: string
  attributes :: "(string \<times> string) list"
  textContent :: string

record reply =
  responseXML :: "xml_element list"
  Status :: string

text \<open>\<open>$(doc).SPFilterNode(name)\<close>: the elements of that node name, in document order.\<close>

definition SPFilterNode :: "xml_element list \<Rightarrow> string \<Rightarrow> xml_element list" where
  "SPFilterNode doc name = filter (\<lambda>e. nodeName e = name) doc"

text \<open>
  \<open>.attr(name)\<close> on a selection reads the attribute of its first element; it is
  \<open>undefined\<close> (\<open>None\<close>) on an empty selection and when the attribute is missing.
\<close>

definition attr :: "xml_element list \<Rightarrow> string \<Rightarrow> string option" where
  "attr sel name = (case sel of [] \<Rightarrow> None | e # _ \<Rightarrow> map_of (attributes e) name)"

section \<open>Page state and requests\<close>

text \<open>
  \<open>isAsync\<close> and \<open>filereader\<close> are assigned without a declaration, so they are
  properties of the page's global object, shared by every call. \<open>readers\<close> holds the
  \<open>result\<close> of each \<open>FileReader\<close> created so far (\<open>None\<close> while it is \<open>null\<close>)
  and \<open>sources\<close> the file it was told to read. A file is modelled by the data URL that
  reading it yields. The other undeclared names (\<open>data\<close>, \<open>n\<close>, \<open>responseError\<close>) are written and
  read back within one uninterrupted handler and are kept local.
\<close>

record page =
  isAsync :: bool
  filereader :: nat
  readers :: "nat \<Rightarrow> string option"
  sources :: "nat \<Rightarrow> string"
  next_reader :: nat

text \<open>The options object given to \<open>$().SPServices\<close>; an option left out is \<open>None\<close>.\<close>

record sp_options =
  operation :: string
  async :: bool
  listName :: string
  webURL :: "string option"
  CAMLViewFields :: "string option"
  CAMLQuery :: "string option"
  batchCmd :: "string option"
  valuepairs :: "(jsval \<times> jsval) list option"
  updates :: "string option"

definition sp_request :: "string \<Rightarrow> bool \<Rightarrow> string \<Rightarrow> sp_options" where
  "sp_request op a lName =
     \<lparr> operation = op, async = a, listName = lName, webURL = None, CAMLViewFields = None,
       CAMLQuery = None, batchCmd = None, valuepairs = None, updates = None \<rparr>"

section \<open>Reading list items\<close>

definition view_fields :: "string list \<Rightarrow> string" where
  "view_fields flds =
     ''<ViewFields>'' @
     foldl (\<lambda>viewFields item. viewFields @ ''<FieldRef Name='' @ [CHR 0x27] @ item @ [CHR 0x27] @ ''/>'')
       [] flds @
     ''</ViewFields>''"

text \<open>One row: a fresh object, then one property per requested field.\<close>

definition parse_row :: "string list \<Rightarrow> xml_element \<Rightarrow> jsval" where
  "parse_row flds row =
     JObject (foldl (\<lambda>obj item. obj_set obj item (opt_val (attr [row] (''ows_'' @ item)))) [] flds)"

definition each_row :: "string list \<Rightarrow> jsval list \<times> nat \<Rightarrow> xml_element \<Rightarrow> jsval list \<times> nat" where
  "each_row flds st row = (array_set (fst st) (snd st) (parse_row flds row), Suc (snd st))"

text \<open>
  The \<open>completefunc\<close> of \<open>getListItems\<close> and \<open>getExternalListItems\<close>, run on the page
  state of the moment the reply arrives. It closes over \<open>fields\<close>, \<open>callback\<close>,
  \<open>listItems\<close> and \<open>i\<close>; it returns \<open>listItems\<close> as it leaves it and the calls made to
  the callback. Calling a callback that was not supplied is a \<open>TypeError\<close>.
\<close>

definition list_completefunc ::
  "page \<Rightarrow> string list \<Rightarrow> 'cb option \<Rightarrow> jsval list \<Rightarrow> nat \<Rightarrow> reply \<Rightarrow>
     js_error + (jsval list \<times> ('cb \<times> jsval) list)" where
  "list_completefunc s flds callback listItems i rep =
     (if Status rep = ''success'' then
        (let listItems' = fst (foldl (each_row flds) (listItems, i)
                                 (SPFilterNode (responseXML rep) ''z:row''))
         in if isAsync s then
              (case callback of
                 None \<Rightarrow> Inl TypeError
               | Some cb \<Rightarrow> Inr (listItems', [(cb, JArray listItems')]))
            else Inr (listItems', []))
      else Inr (listItems, []))"

text \<open>
  What a call leaves behind: the page state, the request it issued, the value it returned,
  the callback calls made before it returned, and whether its \<open>completefunc\<close> is still to
  run (an asynchronous request answers after the call has returned).
\<close>

record 'cb list_call =
  page_after :: page
  request :: sp_options
  returned :: jsval
  invoked :: "('cb \<times> jsval) list"
  pending :: bool

definition default_query :: string where
  "default_query = ''<Query></Query>''"

text \<open>\<open>query ? query : "<Query></Query>"\<close>: an absent and an empty string are both falsy.\<close>

definition query_or_default :: "string option \<Rightarrow> string" where
  "query_or_default query =
     (case query of None \<Rightarrow> default_query | Some q \<Rightarrow> if q = [] then default_query else q)"

definition list_return :: "jsval list \<Rightarrow> jsval" where
  "list_return listItems =
     (if length listItems > 1 then JArray listItems
      else if length listItems = 1 then listItems ! 0
      else JBool False)"

text \<open>
  \<open>getListItems(lName, fields, query, callback)\<close>. \<open>rep\<close> is the reply the service gives
  to this request; a synchronous request hands it to \<open>completefunc\<close> before the call
  returns, an asynchronous one after, so the call returns on the empty \<open>listItems\<close>.
\<close>

definition getListItems ::
  "page \<Rightarrow> string \<Rightarrow> string list \<Rightarrow> string option \<Rightarrow> 'cb option \<Rightarrow> reply \<Rightarrow>
     js_error + 'cb list_call" where
  "getListItems s lName flds query callback rep =
     (let query' = query_or_default query;
          s1 = s\<lparr>isAsync := (callback \<noteq> None)\<rparr>;
          req = (sp_request ''GetListItems'' (isAsync s1) lName)
                  \<lparr>CAMLViewFields := Some (view_fields flds), CAMLQuery := Some query'\<rparr>
      in if isAsync s1 then
           Inr \<lparr> page_after = s1, request = req, returned = list_return [], invoked = [],
                 pending = True \<rparr>
         else
           (case list_completefunc s1 flds callback [] 0 rep of
              Inl e \<Rightarrow> Inl e
            | Inr (listItems, calls) \<Rightarrow>
                Inr \<lparr> page_after = s1, request = req, returned = list_return listItems,
                      invoked = calls, pending = False \<rparr>))"

text \<open>\<open>getExternalListItems(lName, query, fields, webUrl, callback)\<close>.\<close>

definition getExternalListItems ::
  "page \<Rightarrow> string \<Rightarrow> string option \<Rightarrow> string list \<Rightarrow> string \<Rightarrow> 'cb option \<Rightarrow> reply \<Rightarrow>
     js_error + 'cb list_call" where
  "getExternalListItems s lName query flds webUrl callback rep =
     (let s1 = s\<lparr>isAsync := (callback \<noteq> None)\<rparr>;
          req = (sp_request ''GetListItems'' (isAsync s1) lName)
                  \<lparr>webURL := Some webUrl, CAMLViewFields := Some (view_fields flds),
                   CAMLQuery := query\<rparr>
      in if isAsync s1 then
           Inr \<lparr> page_after = s1, request = req, returned = JArray [], invoked = [],
                 pending = True \<rparr>
         else
           (case list_completefunc s1 flds callback [] 0 rep of
              Inl e \<Rightarrow> Inl e
            | Inr (listItems, calls) \<Rightarrow>
                Inr \<lparr> page_after = s1, request = req, returned = JArray listItems,
                      invoked = calls, pending = False \<rparr>))"

section \<open>Creating, updating and deleting list items\<close>

definition or_undefined :: "jsval option \<Rightarrow> jsval" where
  "or_undefined v = (case v of None \<Rightarrow> JUndefined | Some x \<Rightarrow> x)"

text \<open>\<open>xs.forEach(function(item, index) ...)\<close> visits each element with its index.\<close>

definition forEach :: "'a list \<Rightarrow> ('a \<times> nat) list" where
  "forEach xs = zip xs [0..<length xs]"

text \<open>What a synchronous call leaves behind: the request it issued and the value it returned.\<close>

record sync_call =
  issued :: sp_options
  response :: jsval

text \<open>
  The \<open>completefunc\<close> shared by the create, update and delete calls: the value it
  leaves in \<open>response\<close>, whatever \<open>response\<close> held before (\<open>false\<close> in the create
  calls, \<open>undefined\<close> in the others). The request is synchronous, so the helper layer has
  run it, once, when the call returns.
\<close>

definition update_completefunc :: "jsval \<Rightarrow> reply \<Rightarrow> jsval" where
  "update_completefunc response0 rep =
     (let newId = attr (SPFilterNode (responseXML rep) ''z:row'') ''ows_ID''
      in if Status rep = ''success'' \<and> js_ge_zero newId then JBool True else JBool False)"

definition field_value_pairs :: "string list \<Rightarrow> jsval list \<Rightarrow> (jsval \<times> jsval) list" where
  "field_value_pairs flds values =
     foldl (\<lambda>fieldValues (item, index).
              fieldValues @ [(opt_val (js_index flds index), or_undefined (js_index values index))])
       [] (forEach flds)"

definition createNewListItem :: "string \<Rightarrow> string list \<Rightarrow> jsval list \<Rightarrow> reply \<Rightarrow> sync_call" where
  "createNewListItem lName flds values rep =
     \<lparr> issued = (sp_request ''UpdateListItems'' False lName)
                  \<lparr>batchCmd := Some ''New'', valuepairs := Some (field_value_pairs flds values)\<rparr>,
       response = update_completefunc (JBool False) rep \<rparr>"

definition field_elements :: "string list \<Rightarrow> jsval list \<Rightarrow> string" where
  "field_elements flds values =
     foldl (\<lambda>fieldValues (item, index).
              fieldValues @
          ''<Field Name='' @
          [CHR 0x27] @
          to_string (opt_val (js_index flds index)) @
          [CHR 0x27] @
          ''>'' @
          to_string (or_undefined (js_index values index)) @
          ''</Field>'')
       [] (forEach flds)"

definition update_batch :: "string \<Rightarrow> string" where
  "update_batch fieldValues =
     ''<Batch OnError='Continue' PreCalc='TRUE'><Method ID='1' Cmd='Update'>'' @
     fieldValues @
     ''</Method></Batch>''"

definition updateListItem :: "string \<Rightarrow> string list \<Rightarrow> jsval list \<Rightarrow> reply \<Rightarrow> sync_call" where
  "updateListItem lName flds values rep =
     \<lparr> issued = (sp_request ''UpdateListItems'' False lName)
                  \<lparr>updates := Some (update_batch (field_elements flds values))\<rparr>,
       response = update_completefunc JUndefined rep \<rparr>"

definition delete_batch :: "jsval \<Rightarrow> string" where
  "delete_batch id' =
     (let fieldValues =
        ''<Field Name='ID'>'' @
        to_string id' @
        ''</Field>''
      in
        ''<Batch OnError='Continue' PreCalc='TRUE'><Method ID='1' Cmd='Delete'>'' @
        fieldValues @
        ''</Method></Batch>'')"

definition deleteListItem :: "string \<Rightarrow> jsval \<Rightarrow> reply \<Rightarrow> sync_call" where
  "deleteListItem lName id' rep =
     \<lparr> issued = (sp_request ''UpdateListItems'' False lName)\<lparr>updates := Some (delete_batch id')\<rparr>,
       response = update_completefunc JUndefined rep \<rparr>"

definition createExternalListItem ::
  "string \<Rightarrow> string list \<Rightarrow> jsval list \<Rightarrow> string \<Rightarrow> reply \<Rightarrow> sync_call" where
  "createExternalListItem lName flds values webUrl rep =
     \<lparr> issued = (sp_request ''UpdateListItems'' False lName)
                  \<lparr>batchCmd := Some ''New'', webURL := Some webUrl,
                   valuepairs := Some (field_value_pairs flds values)\<rparr>,
       response = update_completefunc (JBool False) rep \<rparr>"

definition updateExternalListItem ::
  "string \<Rightarrow> string list \<Rightarrow> jsval list \<Rightarrow> string \<Rightarrow> reply \<Rightarrow> sync_call" where
  "updateExternalListItem lName flds values webUrl rep =
     \<lparr> issued = (sp_request ''UpdateListItems'' False lName)
                  \<lparr>webURL := Some webUrl,
                   updates := Some (update_batch (field_elements flds values))\<rparr>,
       response = update_completefunc JUndefined rep \<rparr>"

section \<open>Deleting a file\<close>

definition delete_file_batch :: "jsval \<Rightarrow> string \<Rightarrow> string" where
  "delete_file_batch id' filePath =
     ''<Batch OnError='Continue'>'' @
     ''                        <Method ID='1' Cmd='Delete'>'' @
     ''                            <Field Name='ID'>'' @
     to_string id' @
     ''</Field>'' @
     ''                            <Field Name='FileRef'>'' @
     filePath @
     ''</Field>'' @
     ''                        </Method>'' @
     ''                    </Batch>''"

text \<open>
  The \<open>completefunc\<close> of \<open>deleteFile\<close> visits every \<open>ErrorCode\<close> element in turn and
  overwrites \<open>response\<close> at each; the transport status is not read.
\<close>

definition deleteFile_completefunc :: "jsval \<Rightarrow> reply \<Rightarrow> jsval" where
  "deleteFile_completefunc response0 rep =
     foldl (\<lambda>resp e. if textContent e = ''0x00000000'' then JBool True else JBool False)
       response0 (SPFilterNode (responseXML rep) ''ErrorCode'')"

definition deleteFile :: "string \<Rightarrow> string \<Rightarrow> jsval \<Rightarrow> reply \<Rightarrow> sync_call" where
  "deleteFile lName filePath id' rep =
     \<lparr> issued = (sp_request ''UpdateListItems'' False lName)
                  \<lparr>updates := Some (delete_file_batch id' filePath)\<rparr>,
       response = deleteFile_completefunc (JBool False) rep \<rparr>"

section \<open>The current user\<close>

definition URL_SITE :: string where
  "URL_SITE = ''http://yoursiteurl.us/url/of/your/site''"

text \<open>The settings object given to \<open>$.ajax\<close>, with the header \<open>beforeSend\<close> sets.\<close>

record ajax_settings =
  ajax_url :: string
  ajax_async :: bool
  ajax_type :: string
  ajax_dataType :: string
  ajax_data :: string
  ajax_contentType :: string
  ajax_headers :: "(string \<times> string) list"

definition content_type_xml :: string where
  "content_type_xml = ''text/xml; charset='' @ [CHR 0x22] @ ''utf-8'' @ [CHR 0x22]"

definition user_info_envelope :: string where
  "user_info_envelope =
     ''<soap:Envelope xmlns:xsi='http://www.w3.org/2001/XMLSchema-instance' xmlns:xsd='http://w'' @
     ''ww.w3.org/2001/XMLSchema' xmlns:soap='http://schemas.xmlsoap.org/soap/envelope/'> '' @
     ''                    <soap:Body> '' @
     ''                        <GetCurrentUserInfo xmlns='http://schemas.microsoft.com/sharepoi'' @
     ''nt/soap/directory/' /> '' @
     ''                    </soap:Body> '' @
     ''                </soap:Envelope>''"

text \<open>\<open>$(doc).find(tag)\<close>: the elements of that tag name, in document order.\<close>

definition find_tag :: "xml_element list \<Rightarrow> string \<Rightarrow> xml_element list" where
  "find_tag doc tag = filter (\<lambda>e. nodeName e = tag) doc"

definition getCurrentUser_request :: ajax_settings where
  "getCurrentUser_request =
     \<lparr> ajax_url = URL_SITE @ ''/_vti_bin/usergroup.asmx'', ajax_async = False,
       ajax_type = ''POST'', ajax_dataType = ''xml'', ajax_data = user_info_envelope,
       ajax_contentType = content_type_xml, ajax_headers = [] \<rparr>"

text \<open>
  \<open>getCurrentUser()\<close>: the \<open>complete\<close> handler of the synchronous request runs on
  success and on failure alike and sets both variables; the call returns the array of
  the two.
\<close>

definition getCurrentUser :: "reply \<Rightarrow> jsval" where
  "getCurrentUser rep =
     (let idUser = attr (find_tag (responseXML rep) ''User'') ''ID'';
          name = attr (find_tag (responseXML rep) ''User'') ''Name''
      in JArray [opt_val idUser, opt_val name])"

section \<open>Uploading a file\<close>

definition field_information :: "jsval list list \<Rightarrow> string" where
  "field_information flds =
     foldl (\<lambda>fieldInformation values.
              fieldInformation @
          ''<FieldInformation Type='' @
          [CHR 0x27] @
          to_string (or_undefined (js_index values 0)) @
          [CHR 0x27] @
          '' DisplayName='' @
          [CHR 0x27] @
          to_string (or_undefined (js_index values 1)) @
          [CHR 0x27] @
          '' InternalName='' @
          [CHR 0x27] @
          to_string (or_undefined (js_index values 2)) @
          [CHR 0x27] @
          '' Value='' @
          [CHR 0x27] @
          to_string (or_undefined (js_index values 3)) @
          [CHR 0x27] @
          ''/>'')
       [] flds"

text \<open>\<open>s.indexOf(pat)\<close>: the first position at which \<open>pat\<close> occurs, \<open>-1\<close> if none.\<close>

fun indexOf :: "string \<Rightarrow> string \<Rightarrow> int" where
  "indexOf [] pat = (if pat = [] then 0 else - 1)"
| "indexOf (c # cs) pat =
     (if take (length pat) (c # cs) = pat then 0
      else (let k = indexOf cs pat in if k < 0 then - 1 else k + 1))"

text \<open>\<open>s.substring(n)\<close>: a negative start counts as 0, one past the end gives the empty string.\<close>

definition substring :: "string \<Rightarrow> int \<Rightarrow> string" where
  "substring s n = drop (nat n) s"

definition copy_envelope :: "jsval \<Rightarrow> string \<Rightarrow> string \<Rightarrow> string \<Rightarrow> string \<Rightarrow> string \<Rightarrow> string" where
  "copy_envelope path urlSite lName filename fieldInformation data =
     ''<soap:Envelope xmlns:xsi='http://www.w3.org/2001/XMLSchema-instance' xmlns:xsd='http://w'' @
     ''ww.w3.org/2001/XMLSchema' xmlns:soap='http://schemas.xmlsoap.org/soap/envelope/'> '' @
     ''            <soap:Body>'' @
     ''                <CopyIntoItems xmlns='http://schemas.microsoft.com/sharepoint/soap/'>'' @
     ''                    <SourceUrl>'' @
     to_string path @
     ''</SourceUrl>'' @
     ''                        <DestinationUrls>'' @
     ''                            <string>'' @
     urlSite @
     ''/'' @
     lName @
     ''/'' @
     filename @
     ''</string>'' @
     ''                        </DestinationUrls>'' @
     ''                        <Fields>'' @
     ''                            '' @
     fieldInformation @
     ''                        </Fields>'' @
     ''                    <Stream>'' @
     data @
     ''</Stream>'' @
     ''                </CopyIntoItems>'' @
     ''            </soap:Body>'' @
     ''        </soap:Envelope>''"

text \<open>
  What the \<open>onload\<close> handler closes over: the parameters of its call and the strings
  built before the read was started.
\<close>

record 'cb upload_closure =
  up_path :: jsval
  up_fieldInformation :: string
  up_urlSite :: string
  up_lName :: string
  up_filename :: string
  up_successCallback :: "'cb option"
  up_errorCallback :: "'cb option"

text \<open>
  \<open>uploadFile(urlSite, lName, idInputFile, fields, filename, file, successCallback,
  errorCallback)\<close>. \<open>input_val\<close> gives the value of the element a selector finds
  (\<open>undefined\<close> when it finds none). The call creates a reader, stores it in the global
  \<open>filereader\<close>, and starts the read of \<open>file\<close>; it returns the new page state, the
  reader and the handler installed on it. The \<open>filename\<close> property it sets on the reader
  is never read.
\<close>

definition uploadFile ::
  "page \<Rightarrow> (string \<Rightarrow> jsval) \<Rightarrow> string \<Rightarrow> string \<Rightarrow> string \<Rightarrow> jsval list list \<Rightarrow> string \<Rightarrow>
     string \<Rightarrow> 'cb option \<Rightarrow> 'cb option \<Rightarrow> page \<times> nat \<times> 'cb upload_closure" where
  "uploadFile s input_val urlSite lName idInputFile flds filename file successCallback
     errorCallback =
     (let path = input_val (''#'' @ idInputFile);
          fieldInformation = field_information flds;
          r = next_reader s
      in (s\<lparr>filereader := r, readers := (readers s)(r := None),
            sources := (sources s)(r := file), next_reader := Suc r\<rparr>,
          r,
          \<lparr> up_path = path, up_fieldInformation = fieldInformation, up_urlSite = urlSite,
            up_lName = lName, up_filename = filename, up_successCallback = successCallback,
            up_errorCallback = errorCallback \<rparr>))"

text \<open>
  The \<open>onload\<close> handler. It reads \<open>filereader.result\<close> through the global, whichever
  reader that names by then; a \<open>null\<close> result has no \<open>indexOf\<close>. It returns the request
  it posts.
\<close>

definition uploadFile_onload :: "page \<Rightarrow> 'cb upload_closure \<Rightarrow> js_error + ajax_settings" where
  "uploadFile_onload s c =
     (case readers s (filereader s) of
        None \<Rightarrow> Inl TypeError
      | Some result \<Rightarrow>
          (let n = indexOf result '';base64,'' + 8;
               data = substring result n;
               soapEnv = copy_envelope (up_path c) (up_urlSite c) (up_lName c) (up_filename c)
                           (up_fieldInformation c) data
           in Inr \<lparr> ajax_url = up_urlSite c @ ''/_vti_bin/Copy.asmx'', ajax_async = True,
                     ajax_type = ''POST'', ajax_dataType = ''xml'', ajax_data = soapEnv,
                     ajax_contentType = content_type_xml,
                     ajax_headers =
                       [(''SOAPAction'', ''http://schemas.microsoft.com/sharepoint/soap/CopyIntoItems'')] \<rparr>))"

text \<open>
  The read of reader \<open>r\<close> completes: the reader holds the data URL of its file from then
  on and its \<open>onload\<close> handler \<open>c\<close> runs.
\<close>

definition reader_load ::
  "page \<Rightarrow> nat \<Rightarrow> 'cb upload_closure \<Rightarrow> page \<times> (js_error + ajax_settings)" where
  "reader_load s r c =
     (let s1 = s\<lparr>readers := (readers s)(r := Some (sources s r))\<rparr>
      in (s1, uploadFile_onload s1 c))"

text \<open>
  What the handlers of the posted request do when it succeeds and when it fails: call the
  callback the caller supplied, or else write a line to the console.
\<close>

datatype 'cb effect = Call 'cb | Log string

definition uploadFile_success :: "'cb upload_closure \<Rightarrow> 'cb effect" where
  "uploadFile_success c =
     (case up_successCallback c of
        Some successCallback \<Rightarrow> Call successCallback
      | None \<Rightarrow> Log ''File uploaded successfully'')"

definition uploadFile_error :: "'cb upload_closure \<Rightarrow> 'cb effect" where
  "uploadFile_error c =
     (case up_errorCallback c of
        Some errorCallback \<Rightarrow> Call errorCallback
      | None \<Rightarrow> Log ''The file couldn't be uploaded'')"

text \<open>The page before any call.\<close>

definition page0 :: page where
  "page0 = \<lparr> isAsync = False, filereader = 0, readers = (\<lambda>r. None), sources = (\<lambda>r. []),
             next_reader = 0 \<rparr>"

section \<open>Notions the properties are stated with\<close>

text \<open>
  The rows a reply makes \<open>completefunc\<close> parse: every \<open>z:row\<close> element when the status
  is \<open>"success"\<close>, none otherwise.
\<close>

definition parsed_rows :: "string list \<Rightarrow> reply \<Rightarrow> jsval list" where
  "parsed_rows flds rep =
     (if Status rep = ''success''
      then map (parse_row flds) (SPFilterNode (responseXML rep) ''z:row'')
      else [])"

definition row_element :: "(string \<times> string) list \<Rightarrow> xml_element" where
  "row_element as = \<lparr> nodeName = ''z:row'', attributes = as, textContent = [] \<rparr>"

definition error_code_element :: "string \<Rightarrow> xml_element" where
  "error_code_element code = \<lparr> nodeName = ''ErrorCode'', attributes = [], textContent = code \<rparr>"

definition success_reply :: "xml_element list \<Rightarrow> reply" where
  "success_reply doc = \<lparr> responseXML = doc, Status = ''success'' \<rparr>"

definition list_request :: "bool \<Rightarrow> string \<Rightarrow> string list \<Rightarrow> string \<Rightarrow> sp_options" where
  "list_request a lName flds q =
     (sp_request ''GetListItems'' a lName)
       \<lparr>CAMLViewFields := Some (view_fields flds), CAMLQuery := Some q\<rparr>"

text \<open>One \<open>Field\<close> element of an update batch.\<close>

definition field_element :: "string \<Rightarrow> jsval \<Rightarrow> string" where
  "field_element name v =
     ''<Field Name='' @ [CHR 0x27] @ name @ [CHR 0x27] @ ''>'' @ to_string v @ ''</Field>''"

text \<open>
  Two uploads started one after the other on a page whose file input holds
  \<open>report.txt\<close>: the first for \<open>a.txt\<close>, a file read as
  \<open>data:text/plain;base64,QUFB\<close>, the second for \<open>b.txt\<close>, a file read as
  \<open>data:text/plain;base64,QkJC\<close>.
\<close>

definition demo_input :: "string \<Rightarrow> jsval" where
  "demo_input selector = (if selector = ''#fileInput'' then JString ''report.txt'' else JUndefined)"

definition upload_a :: "page \<times> nat \<times> string upload_closure" where
  "upload_a = uploadFile page0 demo_input ''http://example.us/site'' ''Docs'' ''fileInput'' []
                ''a.txt'' ''data:text/plain;base64,QUFB'' None None"

definition upload_b :: "page \<times> nat \<times> string upload_closure" where
  "upload_b = uploadFile (fst upload_a) demo_input ''http://example.us/site'' ''Docs'' ''fileInput'' []
                ''b.txt'' ''data:text/plain;base64,QkJC'' None None"

section \<open>The row loop\<close>

lemma array_set_end: "array_set xs (length xs) v = xs @ [v]"
  by (simp add: array_set_def)

text \<open>
  The loop keeps \<open>i\<close> equal to the length of \<open>listItems\<close>, so every \<open>listItems[i] = {}\<close>
  appends: the rows come out in document order, one object each.
\<close>

lemma each_row_loop:
  "foldl (each_row flds) (xs, length xs) rows =
     (xs @ map (parse_row flds) rows, length xs + length rows)"
proof (induction rows arbitrary: xs)
  case Nil
  show ?case by simp
next
  case (Cons row rows)
  have "each_row flds (xs, length xs) row =
          (xs @ [parse_row flds row], length (xs @ [parse_row flds row]))"
    by (simp add: each_row_def array_set_end)
  then show ?case
    using Cons.IH [of "xs @ [parse_row flds row]"] by simp
qed

lemma rows_from_empty:
  "fst (foldl (each_row flds) ([], 0) rows) = map (parse_row flds) rows"
  using each_row_loop [of flds "[]" rows] by simp

lemma list_completefunc_sync:
  "\<not> isAsync s \<Longrightarrow> list_completefunc s flds callback [] 0 rep = Inr (parsed_rows flds rep, [])"
  by (simp add: list_completefunc_def parsed_rows_def rows_from_empty)

text \<open>
  While \<open>isAsync\<close> still holds the value its own call gave it, the handler of a call with
  a callback calls it once on a \<open>"success"\<close> reply, with every parsed row, and not at all
  on another status.
\<close>

lemma list_completefunc_async:
  "isAsync s \<Longrightarrow>
   list_completefunc s flds (Some cb) [] 0 rep =
     Inr (parsed_rows flds rep,
          if Status rep = ''success'' then [(cb, JArray (parsed_rows flds rep))] else [])"
  by (simp add: list_completefunc_def parsed_rows_def rows_from_empty Let_def)

lemma obj_set_keys: "fst ` set (obj_set ps k v) = insert k (fst ` set ps)"
  by (induction ps k v rule: obj_set.induct) auto

lemma obj_set_distinct: "distinct (map fst ps) \<Longrightarrow> distinct (map fst (obj_set ps k v))"
  by (induction ps k v rule: obj_set.induct) (auto simp: obj_set_keys)

lemma obj_fold_keys:
  "fst ` set (foldl (\<lambda>obj item. obj_set obj item (g item)) ps flds) = fst ` set ps \<union> set flds"
  by (induction flds arbitrary: ps) (auto simp: obj_set_keys)

lemma obj_fold_distinct:
  "distinct (map fst ps) \<Longrightarrow>
   distinct (map fst (foldl (\<lambda>obj item. obj_set obj item (g item)) ps flds))"
  by (induction flds arbitrary: ps) (auto simp: obj_set_distinct)

text \<open>A parsed row is an object whose keys are exactly the requested field names.\<close>

lemma parse_row_keys:
  "\<exists>ps. parse_row flds row = JObject ps \<and> set (map fst ps) = set flds \<and> distinct (map fst ps)"
  by (simp add: parse_row_def obj_fold_keys obj_fold_distinct)

lemma parsed_rows_objects: "x \<in> set (parsed_rows flds rep) \<Longrightarrow> \<exists>ps. x = JObject ps"
  by (auto simp: parsed_rows_def parse_row_def split: if_splits)

lemma single_parsed_row_object: "parsed_rows flds rep = [item] \<Longrightarrow> \<exists>ps. item = JObject ps"
  using parsed_rows_objects [of item flds rep] by simp

section \<open>getListItems\<close>

lemma getListItems_sync:
  "getListItems s lName flds query None rep =
     Inr \<lparr> page_after = s\<lparr>isAsync := False\<rparr>,
           request = list_request False lName flds (query_or_default query),
           returned = list_return (parsed_rows flds rep), invoked = [], pending = False \<rparr>"
  by (simp add: getListItems_def Let_def list_completefunc_sync list_request_def)

lemma getListItems_async:
  "getListItems s lName flds query (Some cb) rep =
     Inr \<lparr> page_after = s\<lparr>isAsync := True\<rparr>,
           request = list_request True lName flds (query_or_default query),
           returned = JBool False, invoked = [], pending = True \<rparr>"
  by (simp add: getListItems_def Let_def list_request_def list_return_def)

lemma list_return_cases:
  "list_return xs = (case xs of [] \<Rightarrow> JBool False | [item] \<Rightarrow> item | _ \<Rightarrow> JArray xs)"
  by (cases xs; simp add: list_return_def split: list.splits)

text \<open>A synchronous call on a list without rows returns the boolean \<open>false\<close>.\<close>

lemma getListItems_zero_rows_false:
  "getListItems page0 ''Employees'' [''ID''] None (None :: string option) (success_reply []) =
     Inr \<lparr> page_after = page0, request = list_request False ''Employees'' [''ID''] ''<Query></Query>'',
           returned = JBool False, invoked = [], pending = False \<rparr>"
  by (simp add: getListItems_sync parsed_rows_def success_reply_def SPFilterNode_def
      list_return_def query_or_default_def default_query_def page0_def)

text \<open>
  C1: every call without a callback completes before it returns, calls nothing and
  signals no error. When no row was parsed (no \<open>z:row\<close> in the reply, or a status other
  than \<open>"success"\<close>) it returns the empty result, which for a synchronous call is the
  boolean \<open>false\<close>; when exactly one row was parsed, the single \<open>ListItem\<close> itself and
  not a one-element collection; when more than one was, the collection of all the
  \<open>ListItem\<close>s.
\<close>

theorem getListItems_sync_result:
  "\<exists>r. getListItems s lName flds query None rep = Inr r \<and> \<not> pending r \<and> invoked r = [] \<and>
       returned r =
         (case parsed_rows flds rep of
            [] \<Rightarrow> JBool False
          | [item] \<Rightarrow> item
          | item # rest \<Rightarrow> JArray (parsed_rows flds rep))"
  by (simp add: getListItems_sync list_return_cases split: list.splits)

text \<open>
  C6, as stated, fails: an empty filter string that the caller supplies is not forwarded;
  the request carries the default query in its place.
\<close>

theorem getListItems_empty_query_replaced:
  "getListItems page0 ''Employees'' [''ID''] (Some []) (None :: string option) (success_reply []) =
     Inr \<lparr> page_after = page0, request = list_request False ''Employees'' [''ID''] ''<Query></Query>'',
           returned = JBool False, invoked = [], pending = False \<rparr>
   \<and> CAMLQuery (list_request False ''Employees'' [''ID''] ''<Query></Query>'') \<noteq> Some []"
  by (simp add: getListItems_sync parsed_rows_def success_reply_def SPFilterNode_def
      list_return_def query_or_default_def default_query_def page0_def list_request_def)

text \<open>
  C6, amended: every call issues its request, whose \<open>CAMLQuery\<close> is the supplied filter
  string, unmodified, whenever that string is not empty; an absent filter and an empty
  one are both replaced by \<open>"<Query></Query>"\<close>.
\<close>

theorem getListItems_query_forwarded:
  "\<exists>r. getListItems s lName flds query callback rep = Inr r \<and>
       CAMLQuery (request r) =
         (if query = None \<or> query = Some [] then Some ''<Query></Query>'' else query)"
proof (cases callback)
  case None
  then show ?thesis
    by (auto simp: getListItems_sync list_request_def query_or_default_def default_query_def)
next
  case (Some cb)
  then show ?thesis
    by (auto simp: getListItems_async list_request_def query_or_default_def default_query_def)
qed

text \<open>
  C4 does not hold of the code. \<open>isAsync\<close> is a global that every call of
  \<open>getListItems\<close> and \<open>getExternalListItems\<close> overwrites, and the handler tests it when
  the reply arrives. A call with the callback \<open>showEmployees\<close> returns with its request
  pending; a second call, without a callback, sets \<open>isAsync\<close> to \<open>false\<close>; the reply to
  the first call then arrives with status \<open>"success"\<close> and one row, the handler parses
  the row and calls nothing.
\<close>

theorem getListItems_callback_lost:
  "getListItems page0 ''Employees'' [''ID''] None (Some ''showEmployees'')
       (success_reply [row_element [(''ows_ID'', ''1'')]]) =
     Inr \<lparr> page_after = page0\<lparr>isAsync := True\<rparr>,
           request = list_request True ''Employees'' [''ID''] ''<Query></Query>'',
           returned = JBool False, invoked = [], pending = True \<rparr>
   \<and> getListItems (page0\<lparr>isAsync := True\<rparr>) ''Departments'' [''Title''] None (None :: string option)
       (success_reply []) =
     Inr \<lparr> page_after = page0\<lparr>isAsync := False\<rparr>,
           request = list_request False ''Departments'' [''Title''] ''<Query></Query>'',
           returned = JBool False, invoked = [], pending = False \<rparr>
   \<and> list_completefunc (page0\<lparr>isAsync := False\<rparr>) [''ID''] (Some ''showEmployees'') [] 0
       (success_reply [row_element [(''ows_ID'', ''1'')]]) =
     Inr ([JObject [(''ID'', JString ''1'')]], [])"
  by (simp add: getListItems_sync getListItems_async list_completefunc_sync parsed_rows_def
      success_reply_def row_element_def SPFilterNode_def parse_row_def attr_def opt_val_def
      list_return_def query_or_default_def default_query_def)

section \<open>getExternalListItems\<close>

lemma getExternalListItems_sync:
  "getExternalListItems s lName query flds webUrl None rep =
     Inr \<lparr> page_after = s\<lparr>isAsync := False\<rparr>,
           request = (sp_request ''GetListItems'' False lName)
                       \<lparr>webURL := Some webUrl, CAMLViewFields := Some (view_fields flds),
                        CAMLQuery := query\<rparr>,
           returned = JArray (parsed_rows flds rep), invoked = [], pending = False \<rparr>"
  by (simp add: getExternalListItems_def Let_def list_completefunc_sync)

lemma getExternalListItems_async:
  "getExternalListItems s lName query flds webUrl (Some cb) rep =
     Inr \<lparr> page_after = s\<lparr>isAsync := True\<rparr>,
           request = (sp_request ''GetListItems'' True lName)
                       \<lparr>webURL := Some webUrl, CAMLViewFields := Some (view_fields flds),
                        CAMLQuery := query\<rparr>,
           returned = JArray [], invoked = [], pending = True \<rparr>"
  by (simp add: getExternalListItems_def Let_def)

text \<open>
  C9: every call of \<open>getExternalListItems\<close> returns \<open>listItems\<close> itself, an array holding
  the rows parsed by the time the call returns: all of them for a call without a callback
  (none when the status is not \<open>"success"\<close>), none yet for a call with a callback, whose
  request is still pending. The value is never the boolean \<open>false\<close>; with exactly one
  row it is the one-element array and not the row.
\<close>

theorem getExternalListItems_returns_collection:
  "\<exists>r. getExternalListItems s lName query flds webUrl callback rep = Inr r \<and>
       pending r = (callback \<noteq> None) \<and>
       returned r = JArray (if pending r then [] else parsed_rows flds rep) \<and>
       returned r \<noteq> JBool False \<and>
       (case parsed_rows flds rep of
          [] \<Rightarrow> returned r = JArray []
        | [item] \<Rightarrow> returned r \<noteq> item \<and> (pending r \<or> returned r = JArray [item])
        | item # rest \<Rightarrow> True)"
proof (cases callback)
  case None
  then show ?thesis
    by (auto simp: getExternalListItems_sync split: list.splits dest: single_parsed_row_object)
next
  case (Some cb)
  then show ?thesis
    by (auto simp: getExternalListItems_async split: list.splits dest: single_parsed_row_object)
qed

section \<open>deleteFile\<close>

lemma overwrite_fold:
  "foldl (\<lambda>resp e. f e) r0 es = (if es = [] then r0 else f (last es))"
  by (induction es arbitrary: r0) auto

lemma deleteFile_response:
  "response (deleteFile lName filePath id' rep) =
     (case SPFilterNode (responseXML rep) ''ErrorCode'' of
        [] \<Rightarrow> JBool False
      | e # es \<Rightarrow> JBool (textContent (last (e # es)) = ''0x00000000''))"
  by (simp add: deleteFile_def deleteFile_completefunc_def overwrite_fold split: list.splits)

text \<open>
  C2: \<open>deleteFile\<close> returns \<open>true\<close> exactly when the reply embeds an \<open>ErrorCode\<close> and
  the code that decides (the last, which is the only one when there is one) is
  \<open>0x00000000\<close>; it returns \<open>false\<close> on every other reply: another code, a document
  without \<open>ErrorCode\<close>, and a transport failure, which delivers no document. The
  transport status plays no part: replacing it leaves the returned value as it was.
\<close>

theorem deleteFile_success_predicate:
  "response (deleteFile lName filePath id' rep) =
     JBool (SPFilterNode (responseXML rep) ''ErrorCode'' \<noteq> [] \<and>
            textContent (last (SPFilterNode (responseXML rep) ''ErrorCode'')) = ''0x00000000'') \<and>
   (SPFilterNode (responseXML rep) ''ErrorCode'' = [e] \<longrightarrow>
      response (deleteFile lName filePath id' rep) = JBool (textContent e = ''0x00000000'')) \<and>
   (SPFilterNode (responseXML rep) ''ErrorCode'' = [] \<longrightarrow>
      response (deleteFile lName filePath id' rep) = JBool False) \<and>
   (responseXML rep = [] \<longrightarrow> response (deleteFile lName filePath id' rep) = JBool False) \<and>
   response (deleteFile lName filePath id' (rep\<lparr>Status := st\<rparr>)) =
     response (deleteFile lName filePath id' rep)"
  by (auto simp: deleteFile_response SPFilterNode_def split: list.splits)

text \<open>
  C2 at the call of the specification's scenario: the zero code gives \<open>true\<close> under the
  status \<open>"success"\<close> and under \<open>"error"\<close>; another code, a fault document without
  \<open>ErrorCode\<close> and a reply without a document each give \<open>false\<close>.
\<close>

theorem deleteFile_success_predicate_witness:
  "response (deleteFile ''Docs'' ''http://example.us/Docs/JohnDoe.txt'' (JNumber 12)
      \<lparr> responseXML = [error_code_element ''0x00000000''], Status = ''success'' \<rparr>) = JBool True \<and>
   response (deleteFile ''Docs'' ''http://example.us/Docs/JohnDoe.txt'' (JNumber 12)
      \<lparr> responseXML = [error_code_element ''0x00000000''], Status = ''error'' \<rparr>) = JBool True \<and>
   response (deleteFile ''Docs'' ''http://example.us/Docs/JohnDoe.txt'' (JNumber 12)
      \<lparr> responseXML = [error_code_element ''0x81020030''], Status = ''success'' \<rparr>) = JBool False \<and>
   response (deleteFile ''Docs'' ''http://example.us/Docs/JohnDoe.txt'' (JNumber 12)
      \<lparr> responseXML = [\<lparr> nodeName = ''soap:Fault'', attributes = [], textContent = ''0x00000000'' \<rparr>],
        Status = ''error'' \<rparr>) = JBool False \<and>
   response (deleteFile ''Docs'' ''http://example.us/Docs/JohnDoe.txt'' (JNumber 12)
      \<lparr> responseXML = [], Status = ''error'' \<rparr>) = JBool False"
proof -
  note ev = SPFilterNode_def error_code_element_def
  have 1: "response (deleteFile ''Docs'' ''http://example.us/Docs/JohnDoe.txt'' (JNumber 12)
      \<lparr> responseXML = [error_code_element ''0x00000000''], Status = ''success'' \<rparr>) = JBool True \<and>
   response (deleteFile ''Docs'' ''http://example.us/Docs/JohnDoe.txt'' (JNumber 12)
      \<lparr> responseXML = [error_code_element ''0x00000000''], Status = ''error'' \<rparr>) = JBool True"
    using deleteFile_success_predicate
          [of "''Docs''" "''http://example.us/Docs/JohnDoe.txt''" "JNumber 12"
              "\<lparr> responseXML = [error_code_element ''0x00000000''], Status = ''success'' \<rparr>"
              "error_code_element ''0x00000000''" "''error''"]
    by (auto simp: ev)
  have 2: "response (deleteFile ''Docs'' ''http://example.us/Docs/JohnDoe.txt'' (JNumber 12)
      \<lparr> responseXML = [error_code_element ''0x81020030''], Status = ''success'' \<rparr>) = JBool False"
    using deleteFile_success_predicate
          [of "''Docs''" "''http://example.us/Docs/JohnDoe.txt''" "JNumber 12"
              "\<lparr> responseXML = [error_code_element ''0x81020030''], Status = ''success'' \<rparr>"
              "error_code_element ''0x81020030''"]
    by (auto simp: ev)
  have 3: "response (deleteFile ''Docs'' ''http://example.us/Docs/JohnDoe.txt'' (JNumber 12)
      \<lparr> responseXML = [\<lparr> nodeName = ''soap:Fault'', attributes = [], textContent = ''0x00000000'' \<rparr>],
        Status = ''error'' \<rparr>) = JBool False"
    using deleteFile_success_predicate
          [of "''Docs''" "''http://example.us/Docs/JohnDoe.txt''" "JNumber 12"
              "\<lparr> responseXML = [\<lparr> nodeName = ''soap:Fault'', attributes = [],
                                  textContent = ''0x00000000'' \<rparr>], Status = ''error'' \<rparr>"]
    by (auto simp: ev)
  have 4: "response (deleteFile ''Docs'' ''http://example.us/Docs/JohnDoe.txt'' (JNumber 12)
      \<lparr> responseXML = [], Status = ''error'' \<rparr>) = JBool False"
    using deleteFile_success_predicate
          [of "''Docs''" "''http://example.us/Docs/JohnDoe.txt''" "JNumber 12"
              "\<lparr> responseXML = [], Status = ''error'' \<rparr>"]
    by (auto simp: ev)
  show ?thesis using 1 2 3 4 by simp
qed

text \<open>
  C10: whatever the transport status, \<open>deleteFile\<close> returns \<open>false\<close> when the reply has no
  \<open>ErrorCode\<close> element, and otherwise the verdict of the last one alone: \<open>true\<close> exactly
  when the last code is \<open>0x00000000\<close>, whatever the codes before it.
\<close>

theorem deleteFile_last_error_code_decides:
  "response (deleteFile lName filePath id' \<lparr> responseXML = doc, Status = st \<rparr>) =
     (case map textContent (SPFilterNode doc ''ErrorCode'') of
        [] \<Rightarrow> JBool False
      | code # codes \<Rightarrow> JBool (last (code # codes) = ''0x00000000''))"
  by (simp add: deleteFile_response last_map split: list.splits)

section \<open>createNewListItem and updateListItem\<close>

lemma digit_not_ws: "is_digit c \<Longrightarrow> \<not> is_ws c"
  by (auto simp: is_digit_def is_ws_def)

lemma dropWhile_keeps: "xs \<noteq> [] \<Longrightarrow> \<not> P (hd xs) \<Longrightarrow> dropWhile P xs = xs"
  by (cases xs) auto

lemma strip_ws_id:
  assumes "s \<noteq> []" "\<not> is_ws (hd s)" "\<not> is_ws (last s)"
  shows "strip_ws s = s"
proof -
  have 1: "dropWhile is_ws s = s"
    using assms by (simp add: dropWhile_keeps)
  have "rev s \<noteq> []" "\<not> is_ws (hd (rev s))"
    using assms by (simp_all add: hd_rev)
  then have 2: "dropWhile is_ws (rev s) = rev s"
    by (rule dropWhile_keeps)
  show ?thesis by (simp add: strip_ws_def 1 2)
qed

lemma all_digits_span:
  "list_all is_digit ds \<Longrightarrow> takeWhile is_digit ds = ds \<and> dropWhile is_digit ds = []"
  by (induction ds) auto

lemma unsigned_decimal_digits:
  "ds \<noteq> [] \<Longrightarrow> list_all is_digit ds \<Longrightarrow> unsigned_decimal ds = Some (digits_val ds, 0)"
  by (simp add: unsigned_decimal_def all_digits_span exponent_part_def)

lemma digits_not_prefixed: "list_all is_digit ds \<Longrightarrow> \<not> prefixed_literal ds"
  by (auto simp: prefixed_literal_def is_digit_def split: list.splits)

lemma digits_last: "ds \<noteq> [] \<Longrightarrow> list_all is_digit ds \<Longrightarrow> is_digit (last ds)"
  by (induction ds) auto

text \<open>A run of decimal digits reads as a number that is not below zero.\<close>

lemma number_sign_digits:
  assumes "ds \<noteq> []" "list_all is_digit ds"
  shows "number_sign ds = NonNegative"
proof -
  have hd: "is_digit (hd ds)" using assms by (cases ds) auto
  have st: "strip_ws ds = ds"
    using assms hd digits_last [OF assms] by (simp add: strip_ws_id digit_not_ws)
  have "hd ds \<noteq> CHR ''-''" "hd ds \<noteq> CHR ''+''" using hd by (auto simp: is_digit_def)
  moreover have "ds \<noteq> ''Infinity''" using assms by (auto simp: is_digit_def)
  ultimately show ?thesis
    using assms by (simp add: number_sign_def st digits_not_prefixed unsigned_decimal_digits)
qed

text \<open>With a minus sign before it, it is below zero unless every digit is 0.\<close>

lemma number_sign_minus_digits:
  assumes "ds \<noteq> []" "list_all is_digit ds"
  shows "number_sign (CHR ''-'' # ds) = (if digits_val ds = 0 then NonNegative else Negative)"
proof -
  have "\<not> is_ws (last (CHR ''-'' # ds))"
    using assms digits_last [OF assms] by (simp add: digit_not_ws)
  moreover have "\<not> is_ws (hd (CHR ''-'' # ds))"
    by (simp add: is_ws_def)
  ultimately have st: "strip_ws (CHR ''-'' # ds) = CHR ''-'' # ds"
    by (intro strip_ws_id) simp_all
  have np: "\<not> prefixed_literal (CHR ''-'' # ds)"
    by (simp add: prefixed_literal_def split: list.splits)
  have "ds \<noteq> ''Infinity''" using assms by (auto simp: is_digit_def)
  then show ?thesis
    using assms by (simp add: number_sign_def st np unsigned_decimal_digits rounds_nonzero_def)
qed

lemma update_response:
  "update_completefunc response0 rep =
     JBool (Status rep = ''success'' \<and>
            (\<exists>newId. attr (SPFilterNode (responseXML rep) ''z:row'') ''ows_ID'' = Some newId \<and>
                     number_sign newId = NonNegative))"
  by (simp add: update_completefunc_def js_ge_zero_def split: option.splits)

text \<open>
  C3: \<open>createNewListItem\<close> returns \<open>true\<close> if and only if the status is \<open>"success"\<close>
  and the reply carries a row identifier (the \<open>ows_ID\<close> attribute that \<open>.attr\<close> reads off
  the \<open>z:row\<close> selection) that is not below zero, and \<open>updateListItem\<close> returns the
  same value on the same reply. Every other outcome is \<open>false\<close>: another status, no
  row, no identifier, and a negative identifier (a minus sign and digits that are not
  all 0). With a run of digits for identifier the status alone decides.
\<close>

theorem create_update_success_predicate:
  "response (createNewListItem lName flds values rep) =
     JBool (Status rep = ''success'' \<and>
            (\<exists>newId. attr (SPFilterNode (responseXML rep) ''z:row'') ''ows_ID'' = Some newId \<and>
                     number_sign newId = NonNegative)) \<and>
   response (updateListItem lName flds values rep) =
     response (createNewListItem lName flds values rep) \<and>
   (Status rep \<noteq> ''success'' \<longrightarrow> response (createNewListItem lName flds values rep) = JBool False) \<and>
   (SPFilterNode (responseXML rep) ''z:row'' = [] \<longrightarrow>
      response (createNewListItem lName flds values rep) = JBool False) \<and>
   (attr (SPFilterNode (responseXML rep) ''z:row'') ''ows_ID'' = None \<longrightarrow>
      response (createNewListItem lName flds values rep) = JBool False) \<and>
   (ds \<noteq> [] \<and> list_all is_digit ds \<and>
    attr (SPFilterNode (responseXML rep) ''z:row'') ''ows_ID'' = Some (CHR ''-'' # ds) \<longrightarrow>
      response (createNewListItem lName flds values rep) =
        JBool (Status rep = ''success'' \<and> digits_val ds = 0)) \<and>
   (ds \<noteq> [] \<and> list_all is_digit ds \<and>
    attr (SPFilterNode (responseXML rep) ''z:row'') ''ows_ID'' = Some ds \<longrightarrow>
      response (createNewListItem lName flds values rep) = JBool (Status rep = ''success''))"
  by (auto simp: createNewListItem_def updateListItem_def update_response attr_def
      number_sign_digits number_sign_minus_digits)

text \<open>
  C3 on replies to a create: identifier 7 gives \<open>true\<close> for both calls; identifier -1,
  a row without identifier, no row, and the status \<open>"error"\<close> each give \<open>false\<close>.
\<close>

theorem create_update_success_predicate_witness:
  "response (createNewListItem ''Employees'' [''FirstName''] [JString ''John'']
      (success_reply [row_element [(''ows_ID'', ''7'')]])) = JBool True \<and>
   response (updateListItem ''Employees'' [''FirstName''] [JString ''John'']
      (success_reply [row_element [(''ows_ID'', ''7'')]])) = JBool True \<and>
   response (createNewListItem ''Employees'' [''FirstName''] [JString ''John'']
      (success_reply [row_element [(''ows_ID'', ''-1'')]])) = JBool False \<and>
   response (createNewListItem ''Employees'' [''FirstName''] [JString ''John'']
      (success_reply [row_element []])) = JBool False \<and>
   response (createNewListItem ''Employees'' [''FirstName''] [JString ''John'']
      (success_reply [])) = JBool False \<and>
   response (createNewListItem ''Employees'' [''FirstName''] [JString ''John'']
      \<lparr> responseXML = [row_element [(''ows_ID'', ''7'')]], Status = ''error'' \<rparr>) = JBool False"
proof -
  note ev = success_reply_def row_element_def SPFilterNode_def attr_def is_digit_def digits_val_def
  have 1: "response (createNewListItem ''Employees'' [''FirstName''] [JString ''John'']
      (success_reply [row_element [(''ows_ID'', ''7'')]])) = JBool True \<and>
   response (updateListItem ''Employees'' [''FirstName''] [JString ''John'']
      (success_reply [row_element [(''ows_ID'', ''7'')]])) = JBool True"
    using create_update_success_predicate
          [of "''Employees''" "[''FirstName'']" "[JString ''John'']"
              "success_reply [row_element [(''ows_ID'', ''7'')]]" "''7''"]
    by (auto simp: ev)
  have 2: "response (createNewListItem ''Employees'' [''FirstName''] [JString ''John'']
      (success_reply [row_element [(''ows_ID'', ''-1'')]])) = JBool False"
    using create_update_success_predicate
          [of "''Employees''" "[''FirstName'']" "[JString ''John'']"
              "success_reply [row_element [(''ows_ID'', ''-1'')]]" "''1''"]
    by (auto simp: ev)
  have 3: "response (createNewListItem ''Employees'' [''FirstName''] [JString ''John'']
      (success_reply [row_element []])) = JBool False"
    using create_update_success_predicate
          [of "''Employees''" "[''FirstName'']" "[JString ''John'']"
              "success_reply [row_element []]"]
    by (auto simp: ev)
  have 4: "response (createNewListItem ''Employees'' [''FirstName''] [JString ''John'']
      (success_reply [])) = JBool False"
    using create_update_success_predicate
          [of "''Employees''" "[''FirstName'']" "[JString ''John'']" "success_reply []"]
    by (auto simp: ev)
  have 5: "response (createNewListItem ''Employees'' [''FirstName''] [JString ''John'']
      \<lparr> responseXML = [row_element [(''ows_ID'', ''7'')]], Status = ''error'' \<rparr>) = JBool False"
    using create_update_success_predicate
          [of "''Employees''" "[''FirstName'']" "[JString ''John'']"
              "\<lparr> responseXML = [row_element [(''ows_ID'', ''7'')]], Status = ''error'' \<rparr>"]
    by (auto simp: ev)
  show ?thesis
    using 1 2 3 4 5 by simp
qed

lemma foldl_snoc_map: "foldl (\<lambda>acc x. acc @ [h x]) acc0 ys = acc0 @ map h ys"
  by (induction ys arbitrary: acc0) auto

lemma foldl_append_concat: "foldl (\<lambda>acc x. acc @ h x) acc0 ys = acc0 @ concat (map h ys)"
  by (induction ys arbitrary: acc0) auto

lemma forEach_indices: "map snd (forEach xs) = [0..<length xs]"
  by (simp add: forEach_def)

lemma forEach_by_index: "map (\<lambda>(item, index). g index) (forEach xs) = map g [0..<length xs]"
proof -
  have "map (\<lambda>(item, index). g index) (forEach xs) = map g (map snd (forEach xs))"
    by (simp add: case_prod_unfold)
  then show ?thesis by (simp add: forEach_indices)
qed

lemma field_value_pairs_by_index:
  "field_value_pairs flds values =
     map (\<lambda>i. (JString (flds ! i), if i < length values then values ! i else JUndefined))
       [0..<length flds]"
proof -
  have "field_value_pairs flds values =
          map (\<lambda>(item, index). (opt_val (js_index flds index), or_undefined (js_index values index)))
            (forEach flds)"
    unfolding field_value_pairs_def
    using foldl_snoc_map
            [of "\<lambda>(item, index). (opt_val (js_index flds index), or_undefined (js_index values index))"
                "[]" "forEach flds"]
    by (simp add: case_prod_unfold)
  also have "\<dots> = map (\<lambda>i. (opt_val (js_index flds i), or_undefined (js_index values i)))
                    [0..<length flds]"
    by (rule forEach_by_index)
  also have "\<dots> = map (\<lambda>i. (JString (flds ! i), if i < length values then values ! i else JUndefined))
                    [0..<length flds]"
    by (simp add: js_index_def opt_val_def or_undefined_def)
  finally show ?thesis .
qed

lemma field_elements_by_index:
  "field_elements flds values =
     concat (map (\<lambda>i. field_element (flds ! i) (if i < length values then values ! i else JUndefined))
               [0..<length flds])"
proof -
  let ?h = "\<lambda>index. field_element (to_string (opt_val (js_index flds index)))
                       (or_undefined (js_index values index))"
  have "field_elements flds values = concat (map (\<lambda>(item, index). ?h index) (forEach flds))"
    unfolding field_elements_def
    using foldl_append_concat [of "\<lambda>(item, index). ?h index" "[]" "forEach flds"]
    by (simp add: case_prod_unfold field_element_def)
  also have "\<dots> = concat (map ?h [0..<length flds])"
    by (simp only: forEach_by_index)
  also have "\<dots> = concat (map (\<lambda>i. field_element (flds ! i)
                         (if i < length values then values ! i else JUndefined)) [0..<length flds])"
    by (rule arg_cong [where f = concat]) (simp add: js_index_def opt_val_def or_undefined_def)
  finally show ?thesis .
qed

lemma field_value_pairs_aligned:
  assumes "length flds = length values"
  shows "field_value_pairs flds values = zip (map JString flds) values"
proof (rule nth_equalityI)
  show "length (field_value_pairs flds values) = length (zip (map JString flds) values)"
    using assms by (simp add: field_value_pairs_by_index)
next
  fix i
  assume "i < length (field_value_pairs flds values)"
  then have "i < length flds"
    by (simp add: field_value_pairs_by_index)
  then show "field_value_pairs flds values ! i = zip (map JString flds) values ! i"
    using assms by (simp add: field_value_pairs_by_index)
qed

lemma forEach_in_bounds:
  "length flds = length values \<Longrightarrow>
   list_all (\<lambda>(item, index). js_index flds index = Some item \<and> js_index values index \<noteq> None)
     (forEach flds)"
  by (auto simp: list_all_iff forEach_def js_index_def set_zip)

text \<open>
  C5: neither call compares the lengths of \<open>fields\<close> and \<open>values\<close>. For arrays of any
  lengths (so also for \<open>fields\<close> the longer) the request is issued and pairs each
  \<open>fields[i]\<close> with \<open>values[i]\<close>, which is \<open>undefined\<close> once \<open>i\<close> is past the end of
  \<open>values\<close>: as a pair in \<open>valuepairs\<close> for the create, as a \<open>Field\<close> element of the
  batch for the update. The call returns a boolean; reading past the end of an array
  yields \<open>undefined\<close> and raises nothing, so the calls have no failing branch. When the
  lengths are equal every indexed read finds an element, and the pairs are the two
  arrays side by side.
\<close>

theorem create_update_no_length_check:
  "valuepairs (issued (createNewListItem lName flds values rep)) =
     Some (map (\<lambda>i. (JString (flds ! i), if i < length values then values ! i else JUndefined))
             [0..<length flds]) \<and>
   updates (issued (updateListItem lName flds values rep)) =
     Some (update_batch
             (concat (map (\<lambda>i. field_element (flds ! i)
                                  (if i < length values then values ! i else JUndefined))
                        [0..<length flds]))) \<and>
   (\<exists>b. response (createNewListItem lName flds values rep) = JBool b) \<and>
   (\<exists>b. response (updateListItem lName flds values rep) = JBool b) \<and>
   (length flds = length values \<longrightarrow>
      list_all (\<lambda>(item, index). js_index flds index = Some item \<and> js_index values index \<noteq> None)
        (forEach flds) \<and>
      valuepairs (issued (createNewListItem lName flds values rep)) =
        Some (zip (map JString flds) values))"
proof -
  have pairs: "valuepairs (issued (createNewListItem lName flds values rep)) =
                 Some (field_value_pairs flds values)"
    by (simp add: createNewListItem_def)
  have batch: "updates (issued (updateListItem lName flds values rep)) =
                 Some (update_batch (field_elements flds values))"
    by (simp add: updateListItem_def)
  have bool: "\<exists>b. update_completefunc response0 rep = JBool b" for response0
    by (auto simp: update_completefunc_def Let_def)
  have resp: "response (createNewListItem lName flds values rep) =
                update_completefunc (JBool False) rep"
             "response (updateListItem lName flds values rep) =
                update_completefunc JUndefined rep"
    by (simp_all add: createNewListItem_def updateListItem_def)
  show ?thesis
    unfolding pairs batch resp
    using bool forEach_in_bounds [of flds "values"] field_value_pairs_aligned [of flds "values"]
    by (simp only: field_value_pairs_by_index [symmetric] field_elements_by_index [symmetric])
       blast
qed

text \<open>
  C5 on two fields: with one value the second field is paired with \<open>undefined\<close>; with
  two values the pairs are aligned.
\<close>

theorem create_update_no_length_check_witness:
  "valuepairs (issued (createNewListItem ''Employees'' [''FirstName'', ''LastName''] [JString ''John'']
      (success_reply [row_element [(''ows_ID'', ''7'')]]))) =
     Some [(JString ''FirstName'', JString ''John''), (JString ''LastName'', JUndefined)] \<and>
   valuepairs (issued (createNewListItem ''Employees'' [''FirstName'', ''LastName'']
      [JString ''John'', JString ''Doe''] (success_reply [row_element [(''ows_ID'', ''7'')]]))) =
     Some [(JString ''FirstName'', JString ''John''), (JString ''LastName'', JString ''Doe'')]"
proof -
  have 1: "valuepairs (issued (createNewListItem ''Employees'' [''FirstName'', ''LastName'']
      [JString ''John''] (success_reply [row_element [(''ows_ID'', ''7'')]]))) =
     Some [(JString ''FirstName'', JString ''John''), (JString ''LastName'', JUndefined)]"
    using create_update_no_length_check
            [of "''Employees''" "[''FirstName'', ''LastName'']" "[JString ''John'']"
                "success_reply [row_element [(''ows_ID'', ''7'')]]"]
    by (simp add: upt_rec)
  have 2: "valuepairs (issued (createNewListItem ''Employees'' [''FirstName'', ''LastName'']
      [JString ''John'', JString ''Doe''] (success_reply [row_element [(''ows_ID'', ''7'')]]))) =
     Some [(JString ''FirstName'', JString ''John''), (JString ''LastName'', JString ''Doe'')]"
    using create_update_no_length_check
            [of "''Employees''" "[''FirstName'', ''LastName'']" "[JString ''John'', JString ''Doe'']"
                "success_reply [row_element [(''ows_ID'', ''7'')]]"]
    by simp
  show ?thesis using 1 2 by simp
qed

section \<open>getCurrentUser\<close>

text \<open>
  C8: \<open>getCurrentUser\<close> always returns an array of two components, the \<open>ID\<close> and the
  \<open>Name\<close> attribute of the first \<open>User\<close> element of the reply, each \<open>undefined\<close> when
  the element lacks it; both are \<open>undefined\<close> when the reply has no \<open>User\<close> element.
  The call has no failing branch.
\<close>

theorem getCurrentUser_pair:
  "getCurrentUser rep =
     (case find_tag (responseXML rep) ''User'' of
        [] \<Rightarrow> JArray [JUndefined, JUndefined]
      | user # others \<Rightarrow>
          JArray [opt_val (map_of (attributes user) ''ID''),
                  opt_val (map_of (attributes user) ''Name'')]) \<and>
   (\<exists>idUser name. getCurrentUser rep = JArray [idUser, name]) \<and>
   (find_tag (responseXML rep) ''User'' = [] \<longrightarrow>
      getCurrentUser rep = JArray [JUndefined, JUndefined])"
  by (simp add: getCurrentUser_def attr_def opt_val_def split: list.splits)

text \<open>
  C8 on a failed request, which delivers no document, on a reply whose document has no
  \<open>User\<close> element, on a reply with both attributes and on one with the \<open>ID\<close> alone.
\<close>

theorem getCurrentUser_pair_witness:
  "getCurrentUser \<lparr> responseXML = [], Status = ''error'' \<rparr> = JArray [JUndefined, JUndefined] \<and>
   getCurrentUser (success_reply [\<lparr> nodeName = ''GetCurrentUserInfoResult'', attributes = [],
                                   textContent = [] \<rparr>]) = JArray [JUndefined, JUndefined] \<and>
   getCurrentUser (success_reply [\<lparr> nodeName = ''User'',
                                   attributes = [(''ID'', ''12''), (''Name'', ''John Doe'')],
                                   textContent = [] \<rparr>]) = JArray [JString ''12'', JString ''John Doe''] \<and>
   getCurrentUser (success_reply [\<lparr> nodeName = ''User'', attributes = [(''ID'', ''12'')],
                                   textContent = [] \<rparr>]) = JArray [JString ''12'', JUndefined]"
proof -
  note ev = find_tag_def success_reply_def opt_val_def
  have 1: "getCurrentUser \<lparr> responseXML = [], Status = ''error'' \<rparr> = JArray [JUndefined, JUndefined]"
    using getCurrentUser_pair [of "\<lparr> responseXML = [], Status = ''error'' \<rparr>"]
    by (auto simp: ev)
  have 2: "getCurrentUser (success_reply [\<lparr> nodeName = ''GetCurrentUserInfoResult'', attributes = [],
                                   textContent = [] \<rparr>]) = JArray [JUndefined, JUndefined]"
    using getCurrentUser_pair [of "success_reply [\<lparr> nodeName = ''GetCurrentUserInfoResult'',
                                   attributes = [], textContent = [] \<rparr>]"]
    by (auto simp: ev)
  have 3: "getCurrentUser (success_reply [\<lparr> nodeName = ''User'',
                                   attributes = [(''ID'', ''12''), (''Name'', ''John Doe'')],
                                   textContent = [] \<rparr>]) = JArray [JString ''12'', JString ''John Doe'']"
    using getCurrentUser_pair [of "success_reply [\<lparr> nodeName = ''User'',
                                   attributes = [(''ID'', ''12''), (''Name'', ''John Doe'')],
                                   textContent = [] \<rparr>]"]
    by (auto simp: ev)
  have 4: "getCurrentUser (success_reply [\<lparr> nodeName = ''User'', attributes = [(''ID'', ''12'')],
                                   textContent = [] \<rparr>]) = JArray [JString ''12'', JUndefined]"
    using getCurrentUser_pair [of "success_reply [\<lparr> nodeName = ''User'',
                                   attributes = [(''ID'', ''12'')], textContent = [] \<rparr>]"]
    by (auto simp: ev)
  show ?thesis using 1 2 3 4 by simp
qed

section \<open>uploadFile\<close>

lemma indexOf_lower: "- 1 \<le> indexOf s pat"
  by (induction s) (auto simp: Let_def)

lemma indexOf_occurs:
  "0 \<le> indexOf s pat \<Longrightarrow> take (length pat) (drop (nat (indexOf s pat)) s) = pat"
proof (induction s)
  case Nil
  then show ?case by (auto split: if_splits)
next
  case (Cons c cs)
  show ?case
  proof (cases "take (length pat) (c # cs) = pat")
    case True
    then show ?thesis by simp
  next
    case False
    with Cons.prems have k: "0 \<le> indexOf cs pat"
      by (auto simp: Let_def split: if_splits)
    with False have "indexOf (c # cs) pat = indexOf cs pat + 1"
      by (simp add: Let_def)
    moreover have "nat (indexOf cs pat + 1) = Suc (nat (indexOf cs pat))"
      using k by simp
    ultimately show ?thesis
      using Cons.IH [OF k] by simp
  qed
qed

lemma indexOf_first:
  "j < nat (indexOf s pat) \<Longrightarrow> take (length pat) (drop j s) \<noteq> pat"
proof (induction s arbitrary: j)
  case Nil
  then show ?case by (auto split: if_splits)
next
  case (Cons c cs)
  show ?case
  proof (cases "take (length pat) (c # cs) = pat")
    case True
    with Cons.prems show ?thesis by simp
  next
    case False
    show ?thesis
    proof (cases j)
      case 0
      with False show ?thesis by simp
    next
      case (Suc j')
      from Cons.prems False have "0 \<le> indexOf cs pat" "indexOf (c # cs) pat = indexOf cs pat + 1"
        by (auto simp: Let_def split: if_splits)
      with Cons.prems Suc have "j' < nat (indexOf cs pat)" by simp
      from Cons.IH [OF this] Suc show ?thesis by simp
    qed
  qed
qed

lemma indexOf_finds:
  "0 \<le> indexOf (pre @ pat @ post) pat \<and> indexOf (pre @ pat @ post) pat \<le> int (length pre)"
proof (induction pre)
  case Nil
  have "take (length pat) (pat @ post) = pat" by simp
  then show ?case by (cases "pat @ post") auto
next
  case (Cons c pre)
  then show ?case by (auto simp: Let_def)
qed

lemma split_at_marker:
  assumes "0 \<le> indexOf s pat"
  shows "s = take (nat (indexOf s pat)) s @ pat @ substring s (indexOf s pat + int (length pat))"
proof -
  let ?k = "nat (indexOf s pat)"
  have "drop ?k s = take (length pat) (drop ?k s) @ drop (length pat) (drop ?k s)"
    by (simp only: append_take_drop_id)
  also have "take (length pat) (drop ?k s) = pat"
    by (rule indexOf_occurs [OF assms])
  also have "drop (length pat) (drop ?k s) = drop (?k + length pat) s"
    by (simp add: add.commute)
  finally have "drop ?k s = pat @ drop (?k + length pat) s" .
  moreover have "nat (indexOf s pat + int (length pat)) = ?k + length pat"
    using assms by (simp add: nat_add_distrib)
  ultimately have "drop ?k s = pat @ substring s (indexOf s pat + int (length pat))"
    by (simp add: substring_def)
  then show ?thesis
    by (metis append_take_drop_id)
qed

text \<open>
  The envelope holds the destination \<open>urlSite + "/" + lName + "/" + filename\<close> in its
  \<open>string\<close> element and \<open>data\<close> in its \<open>Stream\<close> element.
\<close>

lemma copy_envelope_parts:
  "\<exists>a b c. copy_envelope path urlSite lName filename fieldInformation data =
      a @ ''<string>'' @ urlSite @ ''/'' @ lName @ ''/'' @ filename @ ''</string>'' @
      b @ ''<Stream>'' @ data @ ''</Stream>'' @ c"
  unfolding copy_envelope_def
  apply (rule exI [where x = "''<soap:Envelope xmlns:xsi='http://www.w3.org/2001/XMLSchema-instance' xmlns:xsd='http://www.w3.org/2001/XMLSchema' xmlns:soap='http://schemas.xmlsoap.org/soap/envelope/'>             <soap:Body>                <CopyIntoItems xmlns='http://schemas.microsoft.com/sharepoint/soap/'>                    <SourceUrl>'' @ to_string path @ ''</SourceUrl>                        <DestinationUrls>                            ''"])
  apply (rule exI [where x = "''                        </DestinationUrls>                        <Fields>                            '' @ fieldInformation @ ''                        </Fields>                    ''"])
  apply (rule exI [where x = "''                </CopyIntoItems>            </soap:Body>        </soap:Envelope>''"])
  apply simp
  done

text \<open>
  While the global \<open>filereader\<close> still names the reader of the call, whose result holds
  the marker, the handler posts an envelope whose \<open>Stream\<close> is what follows the first
  \<open>;base64,\<close> of that result.
\<close>

lemma uploadFile_onload_undisturbed:
  assumes "readers s (filereader s) = Some (pre @ '';base64,'' @ post)"
  shows "\<exists>req encoded. uploadFile_onload s c = Inr req \<and>
           ajax_data req = copy_envelope (up_path c) (up_urlSite c) (up_lName c) (up_filename c)
                             (up_fieldInformation c) encoded \<and>
           pre @ '';base64,'' @ post =
             take (nat (indexOf (pre @ '';base64,'' @ post) '';base64,'')) (pre @ '';base64,'' @ post)
               @ '';base64,'' @ encoded"
proof -
  let ?s = "pre @ '';base64,'' @ post"
  have "0 \<le> indexOf ?s '';base64,''"
    using indexOf_finds [of pre "'';base64,''" post] by simp
  from split_at_marker [OF this]
  have parts: "?s = take (nat (indexOf ?s '';base64,'')) ?s @ '';base64,'' @
                 substring ?s (indexOf ?s '';base64,'' + 8)"
    by simp
  obtain req where req: "uploadFile_onload s c = Inr req"
    and data: "ajax_data req = copy_envelope (up_path c) (up_urlSite c) (up_lName c) (up_filename c)
                 (up_fieldInformation c) (substring ?s (indexOf ?s '';base64,'' + 8))"
    using assms by (simp add: uploadFile_onload_def Let_def)
  from req data parts show ?thesis by blast
qed

text \<open>
  C7 does not hold of the code. \<open>filereader\<close> is a global that every call of
  \<open>uploadFile\<close> overwrites, and the \<open>onload\<close> handler reads \<open>filereader.result\<close>
  through it. After two calls (readers 0 and 1) the global names reader 1. If the file
  of the first call is read first, its handler finds the \<open>null\<close> result of reader 1
  and raises a \<open>TypeError\<close>: nothing is posted. If the second file is read first, the
  handler of the first call posts, for \<open>a.txt\<close>, a \<open>Stream\<close> holding \<open>QkJC\<close>, the
  content of the second file, and not \<open>QUFB\<close>, its own.
\<close>

theorem uploadFile_reads_other_reader:
  "fst (snd upload_a) = 0 \<and> fst (snd upload_b) = 1 \<and>
   filereader (fst upload_b) = 1 \<and>
   snd (reader_load (fst upload_b) 0 (snd (snd upload_a))) = Inl TypeError \<and>
   snd (reader_load (fst (reader_load (fst upload_b) 1 (snd (snd upload_b)))) 0
          (snd (snd upload_a))) =
     Inr \<lparr> ajax_url = ''http://example.us/site/_vti_bin/Copy.asmx'', ajax_async = True,
           ajax_type = ''POST'', ajax_dataType = ''xml'',
           ajax_data = copy_envelope (JString ''report.txt'') ''http://example.us/site'' ''Docs''
                         ''a.txt'' [] ''QkJC'',
           ajax_contentType = content_type_xml,
           ajax_headers =
             [(''SOAPAction'', ''http://schemas.microsoft.com/sharepoint/soap/CopyIntoItems'')] \<rparr>"
  by (simp add: upload_a_def upload_b_def uploadFile_def reader_load_def uploadFile_onload_def
      page0_def demo_input_def field_information_def substring_def Let_def)

end
